theory Spec2Isabelle
  imports Main "HOL-Library.AList"
begin

section \<open>JavaScript values\<close>

subsection \<open>Parsed documents\<close>

text \<open>
  The documents handled by the language service are parsed JSON. Objects are association
  lists in property order with each key once, read with \<open>map_of\<close>; numbers are
  integers, since the code only ever tests them for being zero. Strings are ASCII, so that
  a character is one UTF-16 code unit.
\<close>

datatype json =
    JNull
  | JBool bool
  | JNum int
  | JStr string
  | JArr "json list"
  | JObj "(string \<times> json) list"

text \<open>The value of \<open>if (v)\<close> for a JSON value.\<close>

fun truthy :: "json \<Rightarrow> bool" where
  "truthy JNull = False"
| "truthy (JBool b) = b"
| "truthy (JNum n) = (n \<noteq> 0)"
| "truthy (JStr s) = (s \<noteq> [])"
| "truthy (JArr xs) = True"
| "truthy (JObj kvs) = True"

text \<open>\<open>if (v)\<close> for a value that may be \<open>undefined\<close> (\<open>None\<close>).\<close>

fun truthy_opt :: "json option \<Rightarrow> bool" where
  "truthy_opt None = False"
| "truthy_opt (Some v) = truthy v"

text \<open>
  An array index as JavaScript writes it as a property name: the decimal digits of a
  natural number, with no leading zero.
\<close>

definition digit_of :: "char \<Rightarrow> nat option" where
  "digit_of c =
     (if of_char c \<ge> (48::nat) \<and> of_char c \<le> (57::nat) then Some (of_char c - 48) else None)"

fun digits_value :: "nat \<Rightarrow> string \<Rightarrow> nat option" where
  "digits_value acc [] = Some acc"
| "digits_value acc (c # cs) =
     (case digit_of c of None \<Rightarrow> None | Some d \<Rightarrow> digits_value (10 * acc + d) cs)"

definition array_index :: "string \<Rightarrow> nat option" where
  "array_index k =
     (if k = [] then None
      else if hd k = CHR ''0'' \<and> length k > 1 then None
      else digits_value 0 k)"

text \<open>The properties a JSON value has of its own.\<close>

fun own_property :: "json \<Rightarrow> string \<Rightarrow> json option" where
  "own_property (JObj kvs) k = map_of kvs k"
| "own_property (JArr xs) k =
     (if k = ''length'' then Some (JNum (int (length xs)))
      else (case array_index k of
              None \<Rightarrow> None
            | Some i \<Rightarrow> if i < length xs then Some (xs ! i) else None))"
| "own_property (JStr s) k =
     (if k = ''length'' then Some (JNum (int (length s)))
      else (case array_index k of
              None \<Rightarrow> None
            | Some i \<Rightarrow> if i < length s then Some (JStr [s ! i]) else None))"
| "own_property (JNum n) k = None"
| "own_property (JBool b) k = None"
| "own_property JNull k = None"

subsection \<open>Values at run time and the members they inherit\<close>

text \<open>
  Reading a property goes on, past a value's own properties, to the members the value
  inherits from the built-in prototypes: \<open>({})['toString']\<close> is a function. A value at
  run time is therefore parsed data or a built-in object (a function or a prototype),
  known by a name.
\<close>

datatype jsval = Data json | Builtin string

datatype error = StorageError | FetchError | HttpError | SyntaxError | TypeError

text \<open>The five kinds of values that have a prototype.\<close>

datatype kind = KObject | KArray | KString | KNumber | KBoolean

text \<open>
  Which members there are is a matter of the JavaScript runtime, a parameter here:
  \<open>inherited_member\<close> names the built-in object that values of a kind inherit under a
  property name, \<open>builtin_member\<close> reads a property of a built-in object (which can
  raise, as \<open>caller\<close> does on a built-in function), and \<open>builtin_to_string_raises\<close>
  says whether converting a built-in object to a string raises.
\<close>

record realm =
  inherited_member :: "kind \<Rightarrow> string \<Rightarrow> string option"
  builtin_member :: "string \<Rightarrow> string \<Rightarrow> error + jsval option"
  builtin_to_string_raises :: "string \<Rightarrow> bool"

fun truthy_val :: "jsval \<Rightarrow> bool" where
  "truthy_val (Data j) = truthy j"
| "truthy_val (Builtin n) = True"

fun truthy_val_opt :: "jsval option \<Rightarrow> bool" where
  "truthy_val_opt None = False"
| "truthy_val_opt (Some v) = truthy_val v"

definition inherited :: "realm \<Rightarrow> kind \<Rightarrow> string \<Rightarrow> jsval option" where
  "inherited rt kd k = map_option Builtin (inherited_member rt kd k)"

text \<open>
  \<open>v[k]\<close>: an own property first, an inherited member otherwise; \<open>None\<close> is
  \<open>undefined\<close>. Reading a property of \<open>null\<close> raises.
\<close>

fun js_get :: "realm \<Rightarrow> jsval \<Rightarrow> string \<Rightarrow> error + jsval option" where
  "js_get rt (Builtin n) k = builtin_member rt n k"
| "js_get rt (Data JNull) k = Inl TypeError"
| "js_get rt (Data (JObj kvs)) k =
     Inr (case map_of kvs k of Some v \<Rightarrow> Some (Data v) | None \<Rightarrow> inherited rt KObject k)"
| "js_get rt (Data (JArr xs)) k =
     Inr (case own_property (JArr xs) k of Some v \<Rightarrow> Some (Data v) | None \<Rightarrow> inherited rt KArray k)"
| "js_get rt (Data (JStr s)) k =
     Inr (case own_property (JStr s) k of Some v \<Rightarrow> Some (Data v) | None \<Rightarrow> inherited rt KString k)"
| "js_get rt (Data (JNum n)) k = Inr (inherited rt KNumber k)"
| "js_get rt (Data (JBool b)) k = Inr (inherited rt KBoolean k)"

text \<open>
  Whether \<open>`${v}`\<close> raises. An object is converted by its \<open>toString\<close> member: the
  inherited one gives a string; one of its own is JSON data and cannot be called, and
  \<open>valueOf\<close> then gives no primitive value either, so the conversion raises. An array
  joins the conversions of its elements.
\<close>

fun data_to_string_raises :: "realm \<Rightarrow> json \<Rightarrow> bool" where
  "data_to_string_raises rt JNull = False"
| "data_to_string_raises rt (JBool b) = False"
| "data_to_string_raises rt (JNum n) = False"
| "data_to_string_raises rt (JStr s) = False"
| "data_to_string_raises rt (JArr xs) =
     (if inherited_member rt KArray ''toString'' = None then True
      else list_ex (data_to_string_raises rt) xs)"
| "data_to_string_raises rt (JObj kvs) =
     (case map_of kvs ''toString'' of
        Some v \<Rightarrow> True
      | None \<Rightarrow> inherited_member rt KObject ''toString'' = None)"

fun to_string_raises :: "realm \<Rightarrow> jsval \<Rightarrow> bool" where
  "to_string_raises rt (Data j) = data_to_string_raises rt j"
| "to_string_raises rt (Builtin n) = builtin_to_string_raises rt n"

subsection \<open>The object held in \<open>messages\<close>\<close>

text \<open>
  The store's \<open>messages\<close> is an object made at run time: its properties hold sections
  of a parsed document or built-in objects that were read from one by name, and its
  prototype is the usual one (\<open>None\<close>) unless an assignment to \<open>__proto__\<close> has
  replaced it. What \<open>getNestedValue\<close> walks is such an object or a value. The store
  hands its state out through the reactive wrapper of Pinia, which is not part of the
  repository; the object is read here as the plain object that it wraps.
\<close>

datatype target = Messages "jsval option" "(string \<times> jsval) list" | Value jsval

fun truthy_target :: "target \<Rightarrow> bool" where
  "truthy_target (Messages proto props) = True"
| "truthy_target (Value v) = truthy_val v"

fun own_data :: "jsval \<Rightarrow> string \<Rightarrow> jsval option" where
  "own_data (Data j) k = map_option Data (own_property j k)"
| "own_data (Builtin n) k = None"

text \<open>
  With the prototype replaced by \<open>p\<close>, a property that the object lacks is looked up in
  \<open>p\<close>; the inherited accessor \<open>__proto__\<close> answers with \<open>p\<close> itself, and a
  prototype \<open>null\<close> has nothing to inherit.
\<close>

fun target_get :: "realm \<Rightarrow> target \<Rightarrow> string \<Rightarrow> error + jsval option" where
  "target_get rt (Value v) k = js_get rt v k"
| "target_get rt (Messages proto props) k =
     (case map_of props k of
        Some v \<Rightarrow> Inr (Some v)
      | None \<Rightarrow>
          (case proto of
             None \<Rightarrow> Inr (inherited rt KObject k)
           | Some p \<Rightarrow>
               if p = Data JNull then Inr None
               else if k = ''__proto__'' \<and> own_data p k = None
                    \<and> inherited_member rt KObject k \<noteq> None then Inr (Some p)
               else js_get rt p k))"

section \<open>The caption provider\<close>

subsection \<open>\<open>getNestedValue\<close>\<close>

text \<open>\<open>path.split('.')\<close>: the pieces between the separators, never an empty list.\<close>

fun js_split :: "char \<Rightarrow> string \<Rightarrow> string list" where
  "js_split sep [] = [[]]"
| "js_split sep (c # cs) =
     (if c = sep then [] # js_split sep cs
      else (case js_split sep cs of
              [] \<Rightarrow> [[c]]
            | w # ws \<Rightarrow> (c # w) # ws))"

text \<open>
  The loop of \<open>getNestedValue\<close> over the remaining keys: it descends while
  \<open>current && current[key] !== undefined\<close> and returns \<open>undefined\<close> otherwise.
\<close>

fun getNestedValue_loop :: "realm \<Rightarrow> jsval \<Rightarrow> string list \<Rightarrow> error + jsval option" where
  "getNestedValue_loop rt current [] = Inr (Some current)"
| "getNestedValue_loop rt current (key # keys) =
     (if truthy_val current then
        (case js_get rt current key of
           Inl err \<Rightarrow> Inl err
         | Inr None \<Rightarrow> Inr None
         | Inr (Some v) \<Rightarrow> getNestedValue_loop rt v keys)
      else Inr None)"

text \<open>
  The first round of the loop reads the object that was passed in, the later ones the
  values found. The list of keys is never empty, so the first round is always taken.
\<close>

definition getNestedValue :: "realm \<Rightarrow> target \<Rightarrow> string \<Rightarrow> error + jsval option" where
  "getNestedValue rt obj path =
     (case js_split CHR ''.'' path of
        [] \<Rightarrow> Inr None
      | key # keys \<Rightarrow>
          if truthy_target obj then
            (case target_get rt obj key of
               Inl err \<Rightarrow> Inl err
             | Inr None \<Rightarrow> Inr None
             | Inr (Some v) \<Rightarrow> getNestedValue_loop rt v keys)
          else Inr None)"

subsection \<open>\<open>String.prototype.replace\<close> with a string pattern\<close>

text \<open>
  The first occurrence of the pattern splits the string into what stands before and
  after it.
\<close>

fun split_first :: "string \<Rightarrow> string \<Rightarrow> (string \<times> string) option" where
  "split_first p [] = (if p = [] then Some ([], []) else None)"
| "split_first p (c # cs) =
     (if take (length p) (c # cs) = p then Some ([], drop (length p) (c # cs))
      else (case split_first p cs of
              None \<Rightarrow> None
            | Some (b, a) \<Rightarrow> Some (c # b, a)))"

text \<open>
  The replacement text is not inserted literally: \<open>$$\<close> stands for a dollar sign,
  \<open>$&\<close> for the matched text, \<open>$`\<close> for the text before the match and
  \<open>$'\<close> for the text after it. A string pattern has no capture groups, so every other
  use of \<open>$\<close> stays as written.
\<close>

fun get_substitution :: "string \<Rightarrow> string \<Rightarrow> string \<Rightarrow> string \<Rightarrow> string" where
  "get_substitution matched pre post [] = []"
| "get_substitution matched pre post [c] = [c]"
| "get_substitution matched pre post (c # d # r) =
     (if c = CHR ''$'' then
        (if d = CHR ''$'' then CHR ''$'' # get_substitution matched pre post r
         else if d = CHR ''&'' then matched @ get_substitution matched pre post r
         else if d = CHR 0x60 then pre @ get_substitution matched pre post r
         else if d = CHR 0x27 then post @ get_substitution matched pre post r
         else c # get_substitution matched pre post (d # r))
      else c # get_substitution matched pre post (d # r))"

definition js_replace :: "string \<Rightarrow> string \<Rightarrow> string \<Rightarrow> string" where
  "js_replace s p r =
     (case split_first p s of
        None \<Rightarrow> s
      | Some (b, a) \<Rightarrow> b @ get_substitution p b a r @ a)"

subsection \<open>The store and the statistics\<close>

text \<open>
  \<open>messages\<close> lists the own properties of the object the store holds,
  \<open>messages_proto\<close> is that object's prototype where one was assigned.
\<close>

record language_state =
  currentLocale :: string
  messages :: "(string \<times> jsval) list"
  messages_proto :: "jsval option"
  supportedLocales :: "string list"
  isLoading :: bool

definition messages_object :: "language_state \<Rightarrow> target" where
  "messages_object st = Messages (messages_proto st) (messages st)"

record translationStats =
  storeHits :: nat
  fallbackHits :: nat
  missingKeys :: nat

subsection \<open>\<open>caption\<close> and \<open>hasTranslation\<close>\<close>

text \<open>
  The \<open>forEach\<close> over \<open>Object.entries(params)\<close>: the parameters come in the order
  JavaScript enumerates them, each value already passed through \<open>String(...)\<close>.
\<close>

definition interpolate :: "string \<Rightarrow> (string \<times> string) list \<Rightarrow> string" where
  "interpolate translation params =
     foldl (\<lambda>t (paramKey, paramValue). js_replace t (''{'' @ paramKey @ ''}'') paramValue)
       translation params"

text \<open>\<open>fallback || key\<close>.\<close>

definition fallback_or_key :: "string option \<Rightarrow> string \<Rightarrow> string" where
  "fallback_or_key fallback key =
     (case fallback of
        None \<Rightarrow> key
      | Some f \<Rightarrow> if f \<noteq> [] then f else key)"

text \<open>
  The three sources in order, up to the parameter interpolation.
  \<open>englishFallbacks\<close> is the bundled English document, a parameter here. A hit is
  counted before it is logged, and the log line converts the value found to a string:
  where that raises, the counter has already moved.
\<close>

definition resolve_translation ::
  "realm \<Rightarrow> language_state \<Rightarrow> json \<Rightarrow> translationStats \<Rightarrow> string \<Rightarrow> string option
    \<Rightarrow> (error + jsval) \<times> translationStats" where
  "resolve_translation rt languageStore englishFallbacks translationStats key fallback =
     (case getNestedValue rt (messages_object languageStore) key of
        Inl err \<Rightarrow> (Inl err, translationStats)
      | Inr storeTranslation \<Rightarrow>
          if truthy_val_opt storeTranslation then
            (case storeTranslation of
               None \<Rightarrow> (Inr (Data (JStr [])), translationStats)
             | Some v \<Rightarrow>
                 (if to_string_raises rt v then Inl TypeError else Inr v,
                  translationStats\<lparr>storeHits := Suc (storeHits translationStats)\<rparr>))
          else
            (case getNestedValue rt (Value (Data englishFallbacks)) key of
               Inl err \<Rightarrow> (Inl err, translationStats)
             | Inr fallbackTranslation \<Rightarrow>
                 if truthy_val_opt fallbackTranslation then
                   (case fallbackTranslation of
                      None \<Rightarrow> (Inr (Data (JStr [])), translationStats)
                    | Some v \<Rightarrow>
                        (if to_string_raises rt v then Inl TypeError else Inr v,
                         translationStats\<lparr>fallbackHits := Suc (fallbackHits translationStats)\<rparr>))
                 else
                   (Inr (Data (JStr (fallback_or_key fallback key))),
                    translationStats\<lparr>missingKeys := Suc (missingKeys translationStats)\<rparr>)))"

text \<open>
  The interpolation applies to strings only. Whatever the \<open>try\<close> block raises, the
  \<open>catch\<close> answers with \<open>fallback || key\<close>.
\<close>

definition caption ::
  "realm \<Rightarrow> language_state \<Rightarrow> json \<Rightarrow> translationStats \<Rightarrow> string \<Rightarrow> string option
    \<Rightarrow> (string \<times> string) list option \<Rightarrow> jsval \<times> translationStats" where
  "caption rt languageStore englishFallbacks translationStats key fallback params =
     (case resolve_translation rt languageStore englishFallbacks translationStats key fallback of
        (Inl err, stats) \<Rightarrow> (Data (JStr (fallback_or_key fallback key)), stats)
      | (Inr translation, stats) \<Rightarrow>
          (case params of
             None \<Rightarrow> (translation, stats)
           | Some ps \<Rightarrow>
               (case translation of
                  Data (JStr t) \<Rightarrow> (Data (JStr (interpolate t ps)), stats)
                | _ \<Rightarrow> (translation, stats))))"

text \<open>\<open>hasTranslation\<close> has no \<open>try\<close> block: what the lookup raises, it raises.\<close>

definition hasTranslation :: "realm \<Rightarrow> language_state \<Rightarrow> string \<Rightarrow> error + bool" where
  "hasTranslation rt languageStore key =
     (case getNestedValue rt (messages_object languageStore) key of
        Inl err \<Rightarrow> Inl err
      | Inr translation \<Rightarrow> Inr (translation \<noteq> None))"

section \<open>The browser and the network\<close>

text \<open>
  What the services read and write outside the store: the \<open>user-language\<close> entry of
  \<open>localStorage\<close>, the object store \<open>translations\<close> of the IndexedDB database,
  the \<open>lang\<close> attribute of the document, and the CDN. Every storage operation can
  fail; the flags say which ones do. \<open>fetch_count\<close> counts the calls of \<open>fetch\<close>.
\<close>

text \<open>
  What \<open>fetch(url)\<close> gives: the promise rejects, or a response arrives with its
  \<open>ok\<close> flag and its body, \<open>None\<close> when \<open>response.json()\<close> cannot parse it.
\<close>

datatype fetch_outcome = Rejected | Response bool "json option"

record env =
  user_language :: "string option"
  idb_store :: "string \<rightharpoonup> json"
  db_open_ok :: bool
  db_get_ok :: bool
  db_clear_ok :: bool
  db_put_ok :: bool
  setItem_ok :: bool
  CDN_BASE_URL :: string
  cdn :: "string \<Rightarrow> fetch_outcome"
  fetch_count :: nat
  html_lang :: string

section \<open>The local cache (\<open>languageDB\<close>)\<close>

text \<open>\<open>localStorage.getItem('user-language') || 'en'\<close>.\<close>

definition getCurrentLanguage :: "env \<Rightarrow> string" where
  "getCurrentLanguage e =
     (case user_language e of
        None \<Rightarrow> ''en''
      | Some l \<Rightarrow> if l \<noteq> [] then l else ''en'')"

definition languageDB_get :: "env \<Rightarrow> string \<Rightarrow> error + json option" where
  "languageDB_get e locale =
     (if db_open_ok e then
        (let currentLanguage = getCurrentLanguage e in
         if currentLanguage = locale then
           (if db_get_ok e then Inr (idb_store e ''current'') else Inl StorageError)
         else Inr None)
      else Inl StorageError)"

text \<open>
  \<open>currentLanguage\<close> is never empty, so the test
  \<open>currentLanguage && currentLanguage !== locale\<close> is the inequality alone. A failing
  \<open>put\<close> leaves the store as the \<open>clear\<close> before it left it.
\<close>

definition languageDB_set :: "env \<Rightarrow> string \<Rightarrow> json \<Rightarrow> (error + unit) \<times> env" where
  "languageDB_set e locale translations =
     (if db_open_ok e then
        (let currentLanguage = getCurrentLanguage e in
         if currentLanguage \<noteq> locale \<and> \<not> db_clear_ok e then (Inl StorageError, e)
         else
           (let e1 = (if currentLanguage \<noteq> locale then e\<lparr>idb_store := Map.empty\<rparr> else e) in
            if db_put_ok e then
              (Inr (), e1\<lparr>idb_store := (idb_store e1)(''current'' \<mapsto> translations)\<rparr>)
            else (Inl StorageError, e1)))
      else (Inl StorageError, e))"

definition languageDB_clear :: "env \<Rightarrow> (error + unit) \<times> env" where
  "languageDB_clear e =
     (if db_open_ok e then
        (if db_clear_ok e then (Inr (), e\<lparr>idb_store := Map.empty\<rparr>) else (Inl StorageError, e))
      else (Inl StorageError, e))"

section \<open>The content loader (\<open>loadLanguage\<close>)\<close>

definition translations_url :: "env \<Rightarrow> string \<Rightarrow> string" where
  "translations_url e locale = CDN_BASE_URL e @ ''/'' @ locale @ ''/en.json''"

text \<open>
  The \<open>try\<close> block: the fetch, the status check, the parse, \<open>Object.keys\<close> of the
  parsed document (which raises on \<open>null\<close>) and the write-back.
\<close>

definition loadLanguage_try :: "env \<Rightarrow> string \<Rightarrow> (error + json) \<times> env" where
  "loadLanguage_try e locale =
     (let e1 = e\<lparr>fetch_count := Suc (fetch_count e)\<rparr> in
      case cdn e (translations_url e locale) of
        Rejected \<Rightarrow> (Inl FetchError, e1)
      | Response ok body \<Rightarrow>
          if \<not> ok then (Inl HttpError, e1)
          else
            (case body of
               None \<Rightarrow> (Inl SyntaxError, e1)
             | Some translations \<Rightarrow>
                 if translations = JNull then (Inl TypeError, e1)
                 else
                   (case languageDB_set e1 locale translations of
                      (Inl err, e2) \<Rightarrow> (Inl err, e2)
                    | (Inr u, e2) \<Rightarrow> (Inr translations, e2))))"

text \<open>
  The cache is read before the \<open>try\<close> block is entered, so a failure of
  \<open>languageDB.get\<close> leaves the function as an error; the \<open>catch\<close> turns every
  error of the block into the empty document.
\<close>

definition loadLanguage :: "env \<Rightarrow> string \<Rightarrow> (error + json) \<times> env" where
  "loadLanguage e locale =
     (if locale = ''en'' then (Inr (JObj []), e)
      else
        (case languageDB_get e locale of
           Inl err \<Rightarrow> (Inl err, e)
         | Inr cached \<Rightarrow>
             if truthy_opt cached then
               (case cached of
                  Some c \<Rightarrow> (Inr c, e)
                | None \<Rightarrow> (Inr (JObj []), e))
             else
               (case loadLanguage_try e locale of
                  (Inl err, e2) \<Rightarrow> (Inr (JObj []), e2)
                | (Inr translations, e2) \<Rightarrow> (Inr translations, e2))))"

section \<open>The language store\<close>

definition initial_state :: language_state where
  "initial_state =
     \<lparr>currentLocale = ''en'', messages = [], messages_proto = None,
      supportedLocales = [''en'', ''es'', ''fr''], isLoading = False\<rparr>"

definition defaultSections :: "string list" where
  "defaultSections = [''common'', ''error'', ''footer'']"

text \<open>
  \<open>uiSection && !defaultSections.includes(uiSection)\<close>: an empty section name counts as
  none.
\<close>

definition sectionsToLoad :: "string option \<Rightarrow> string list" where
  "sectionsToLoad uiSection =
     defaultSections @
       (case uiSection of
          None \<Rightarrow> []
        | Some s \<Rightarrow> if s \<noteq> [] \<and> s \<notin> set defaultSections then [s] else [])"

text \<open>
  \<open>filteredMessages[section] = v\<close> on the object under construction, given as its
  prototype and its own properties. Under the name \<open>__proto__\<close>, where objects inherit
  that accessor and the object has no such property of its own, no property is made: an
  object \<open>v\<close> becomes the prototype, any other \<open>v\<close> is ignored.
\<close>

fun is_object :: "jsval \<Rightarrow> bool" where
  "is_object (Builtin n) = True"
| "is_object (Data (JObj kvs)) = True"
| "is_object (Data (JArr xs)) = True"
| "is_object (Data j) = False"

definition js_assign ::
  "realm \<Rightarrow> jsval option \<times> (string \<times> jsval) list \<Rightarrow> string \<Rightarrow> jsval
    \<Rightarrow> jsval option \<times> (string \<times> jsval) list" where
  "js_assign rt obj k v =
     (case obj of
        (proto, props) \<Rightarrow>
          if k = ''__proto__'' \<and> map_of props k = None \<and> inherited_member rt KObject k \<noteq> None
          then (if is_object v then (Some v, props) else (proto, props))
          else (proto, AList.update k v props))"

text \<open>
  The loop that copies the sections of \<open>allMessages\<close> for which
  \<open>allMessages[section]\<close> is true.
\<close>

fun filter_sections ::
  "realm \<Rightarrow> json \<Rightarrow> string list \<Rightarrow> jsval option \<times> (string \<times> jsval) list
    \<Rightarrow> error + jsval option \<times> (string \<times> jsval) list" where
  "filter_sections rt allMessages [] filteredMessages = Inr filteredMessages"
| "filter_sections rt allMessages (section # rest) filteredMessages =
     (case js_get rt (Data allMessages) section of
        Inl err \<Rightarrow> Inl err
      | Inr None \<Rightarrow> filter_sections rt allMessages rest filteredMessages
      | Inr (Some v) \<Rightarrow>
          filter_sections rt allMessages rest
            (if truthy_val v then js_assign rt filteredMessages section v else filteredMessages))"

text \<open>
  The \<open>try\<close> block of \<open>setAndLoadLanguage\<close>. A \<open>localStorage.setItem\<close> that fails
  raises after the store has been assigned.
\<close>

definition setAndLoadLanguage_try ::
  "realm \<Rightarrow> env \<Rightarrow> language_state \<Rightarrow> string \<Rightarrow> string option
    \<Rightarrow> (error + unit) \<times> language_state \<times> env" where
  "setAndLoadLanguage_try rt e st locale uiSection =
     (case loadLanguage e locale of
        (Inl err, e1) \<Rightarrow> (Inl err, st, e1)
      | (Inr allMessages, e1) \<Rightarrow>
          (case filter_sections rt allMessages (sectionsToLoad uiSection) (None, []) of
             Inl err \<Rightarrow> (Inl err, st, e1)
           | Inr (proto, props) \<Rightarrow>
               (let st1 = st\<lparr>messages := props, messages_proto := proto, currentLocale := locale\<rparr>
                in if setItem_ok e1 then
                     (Inr (), st1, e1\<lparr>user_language := Some locale, html_lang := locale\<rparr>)
                   else (Inl StorageError, st1, e1))))"

text \<open>
  \<open>catch\<close> empties the messages, \<open>finally\<close> resets the flag; neither can raise, so
  the promise of the action always resolves.
\<close>

definition setAndLoadLanguage ::
  "realm \<Rightarrow> env \<Rightarrow> language_state \<Rightarrow> string \<Rightarrow> string option
    \<Rightarrow> (error + unit) \<times> language_state \<times> env" where
  "setAndLoadLanguage rt e st locale uiSection =
     (case setAndLoadLanguage_try rt e (st\<lparr>isLoading := True\<rparr>) locale uiSection of
        (Inl err, st1, e1) \<Rightarrow>
          (Inr (), st1\<lparr>messages := [], messages_proto := None, isLoading := False\<rparr>, e1)
      | (Inr u, st1, e1) \<Rightarrow> (Inr (), st1\<lparr>isLoading := False\<rparr>, e1))"

text \<open>
  The spread \<open>{ ...this.messages, [sectionName]: v }\<close> makes a new object with the usual
  prototype, the own properties of the old one and the section as a property of its own.
\<close>

definition loadAdditionalSection_try ::
  "realm \<Rightarrow> env \<Rightarrow> language_state \<Rightarrow> string \<Rightarrow> (error + unit) \<times> language_state \<times> env" where
  "loadAdditionalSection_try rt e st sectionName =
     (case loadLanguage e (currentLocale st) of
        (Inl err, e1) \<Rightarrow> (Inl err, st, e1)
      | (Inr allMessages, e1) \<Rightarrow>
          (case js_get rt (Data allMessages) sectionName of
             Inl err \<Rightarrow> (Inl err, st, e1)
           | Inr None \<Rightarrow> (Inr (), st, e1)
           | Inr (Some v) \<Rightarrow>
               if truthy_val v then
                 (Inr (),
                  st\<lparr>messages := AList.update sectionName v (messages st), messages_proto := None\<rparr>,
                  e1)
               else (Inr (), st, e1)))"

definition loadAdditionalSection ::
  "realm \<Rightarrow> env \<Rightarrow> language_state \<Rightarrow> string \<Rightarrow> (error + unit) \<times> language_state \<times> env" where
  "loadAdditionalSection rt e st sectionName =
     (if currentLocale st = ''en'' then (Inr (), st, e)
      else
        (case loadAdditionalSection_try rt e (st\<lparr>isLoading := True\<rparr>) sectionName of
           (r, st1, e1) \<Rightarrow> (Inr (), st1\<lparr>isLoading := False\<rparr>, e1)))"

text \<open>\<open>this.messages[section] !== undefined\<close>; reading the store's object never raises
  unless its prototype was replaced by a built-in object.\<close>

definition isSectionLoaded :: "realm \<Rightarrow> language_state \<Rightarrow> string \<Rightarrow> error + bool" where
  "isSectionLoaded rt st section =
     (case target_get rt (messages_object st) section of
        Inl err \<Rightarrow> Inl err
      | Inr v \<Rightarrow> Inr (v \<noteq> None))"

section \<open>A sample deployment\<close>

text \<open>
  A runtime in which every value inherits the members of \<open>Object.prototype\<close>. The
  further members of arrays, strings, numbers and booleans, and the members of the
  built-in objects themselves, are left out: the examples read properties of objects
  only.
\<close>

definition object_prototype_members :: "string list" where
  "object_prototype_members =
     [''constructor'', ''__defineGetter__'', ''__defineSetter__'', ''hasOwnProperty'',
      ''__lookupGetter__'', ''__lookupSetter__'', ''isPrototypeOf'', ''propertyIsEnumerable'',
      ''toString'', ''valueOf'', ''__proto__'', ''toLocaleString'']"

definition example_realm :: realm where
  "example_realm =
     \<lparr>inherited_member =
        (\<lambda>kd name. if name \<in> set object_prototype_members
                    then Some (''Object.prototype.'' @ name) else None),
      builtin_member = (\<lambda>n k. Inr None),
      builtin_to_string_raises = (\<lambda>n. False)\<rparr>"

text \<open>
  A Spanish and a French document on the CDN, nothing cached yet, no language chosen yet,
  and a storage layer that works. The CDN also answers for the empty language name.
\<close>

definition example_document_es :: json where
  "example_document_es =
     JObj [(''common'', JObj [(''save'', JStr ''Guardar'')]),
           (''error'', JObj [(''generic'', JStr ''Algo ha fallado'')]),
           (''footer'', JObj [(''copyright'', JStr ''Derechos reservados'')]),
           (''dashboard'', JObj [(''welcome'', JStr ''Bienvenido de nuevo, {name}!'')]),
           (''settings'', JObj [(''title'', JStr ''Ajustes'')])]"

definition example_document_fr :: json where
  "example_document_fr = JObj [(''common'', JObj [(''save'', JStr ''Enregistrer'')])]"

definition example_cdn :: "string \<Rightarrow> fetch_outcome" where
  "example_cdn url =
     (if url = ''https://cdn.example/es/en.json'' then Response True (Some example_document_es)
      else if url = ''https://cdn.example/fr/en.json'' then Response True (Some example_document_fr)
      else if url = ''https://cdn.example//en.json'' then Response True (Some example_document_fr)
      else Response False None)"

definition example_env :: env where
  "example_env =
     \<lparr>user_language = None, idb_store = Map.empty, db_open_ok = True, db_get_ok = True,
      db_clear_ok = True, db_put_ok = True, setItem_ok = True,
      CDN_BASE_URL = ''https://cdn.example'', cdn = example_cdn, fetch_count = 0,
      html_lang = ''en''\<rparr>"

definition example_english :: json where
  "example_english = JObj [(''common'', JObj [(''cancel'', JStr ''Cancel''), (''save'', JStr ''Save'')])]"

definition example_store :: language_state where
  "example_store = initial_state\<lparr>currentLocale := ''es'',
     messages := [(''common'', Data (JObj [(''save'', JStr ''Guardar'')]))]\<rparr>"

definition no_stats :: translationStats where
  "no_stats = \<lparr>storeHits = 0, fallbackHits = 0, missingKeys = 0\<rparr>"

text \<open>The same deployment once Spanish has been chosen and its document cached.\<close>

definition example_env_es :: env where
  "example_env_es =
     example_env\<lparr>user_language := Some ''es'', idb_store := [''current'' \<mapsto> example_document_es]\<rparr>"

text \<open>A cached Spanish document that has a section with the empty name.\<close>

definition example_document_unnamed :: json where
  "example_document_unnamed =
     JObj [(''common'', JObj [(''save'', JStr ''Guardar'')]),
           ('''', JObj [(''title'', JStr ''Portada'')])]"

definition example_env_unnamed :: env where
  "example_env_unnamed =
     example_env\<lparr>user_language := Some ''es'', idb_store := [''current'' \<mapsto> example_document_unnamed]\<rparr>"

text \<open>The store and the environment an action leaves behind.\<close>

definition state_after :: "(error + unit) \<times> language_state \<times> env \<Rightarrow> language_state" where
  "state_after result = fst (snd result)"

definition env_after :: "(error + unit) \<times> language_state \<times> env \<Rightarrow> env" where
  "env_after result = snd (snd result)"

section \<open>Properties\<close>

subsection \<open>Auxiliary facts\<close>

lemma js_split_not_Nil: "js_split sep s \<noteq> []"
  by (induction s) (auto split: list.splits)

lemma js_split_no_sep: "sep \<notin> set s \<Longrightarrow> js_split sep s = [s]"
  by (induction s) auto

lemma js_split_append:
  "sep \<notin> set a \<Longrightarrow> js_split sep (a @ sep # b) = a # js_split sep b"
  by (induction a) (auto split: list.splits)

text \<open>A key of the usual shape, a section and a leaf, is looked up in two steps.\<close>

lemma getNestedValue_section_key:
  assumes "CHR ''.'' \<notin> set section" "CHR ''.'' \<notin> set leaf"
  shows "getNestedValue rt (Value (Data (JObj kvs))) (section @ ''.'' @ leaf) =
    (case js_get rt (Data (JObj kvs)) section of
       Inl err \<Rightarrow> Inl err
     | Inr None \<Rightarrow> Inr None
     | Inr (Some v) \<Rightarrow> if truthy_val v then js_get rt v leaf else Inr None)"
  using assms
  by (auto simp: getNestedValue_def js_split_append js_split_no_sep
      split: option.splits sum.splits)

text \<open>Reading a property of parsed data other than \<open>null\<close> does not raise.\<close>

lemma js_get_data: "j \<noteq> JNull \<Longrightarrow> \<exists>r. js_get rt (Data j) k = Inr r"
  by (cases j) auto

lemma filter_sections_returns:
  "allMessages \<noteq> JNull \<Longrightarrow> \<exists>f. filter_sections rt allMessages secs acc = Inr f"
proof (induction secs arbitrary: acc)
  case Nil
  then show ?case by simp
next
  case (Cons s secs)
  from js_get_data [OF Cons.prems, of rt s] obtain r where "js_get rt (Data allMessages) s = Inr r"
    by auto
  with Cons show ?case by (cases r) auto
qed

text \<open>
  For section names that objects do not inherit, the loop copies the sections that the
  document has and that are true, and leaves the prototype alone.
\<close>

lemma filter_sections_plain:
  assumes "list_all (\<lambda>s. inherited_member rt KObject s = None) secs"
  shows "\<exists>props. filter_sections rt (JObj doc) secs (proto, acc) = Inr (proto, props) \<and>
    (\<forall>k. map_of props k =
       (if k \<in> set secs \<and> truthy_opt (map_of doc k) then map_option Data (map_of doc k)
        else map_of acc k)) \<and>
    (distinct (map fst acc) \<longrightarrow> distinct (map fst props))"
  using assms
proof (induction secs arbitrary: acc)
  case Nil
  then show ?case by simp
next
  case (Cons s secs)
  then have plain: "inherited_member rt KObject s = None"
    and rest: "list_all (\<lambda>s. inherited_member rt KObject s = None) secs"
    by simp_all
  show ?case
  proof (cases "map_of doc s")
    case None
    with plain Cons.IH [OF rest, of acc] show ?thesis
      by (auto simp: inherited_def)
  next
    case (Some v)
    show ?thesis
    proof (cases "truthy v")
      case True
      from Cons.IH [OF rest, of "AList.update s (Data v) acc"]
      obtain props where
        f: "filter_sections rt (JObj doc) secs (proto, AList.update s (Data v) acc) = Inr (proto, props)"
        and m: "\<forall>k. map_of props k =
          (if k \<in> set secs \<and> truthy_opt (map_of doc k) then map_option Data (map_of doc k)
           else map_of (AList.update s (Data v) acc) k)"
        and d: "distinct (map fst (AList.update s (Data v) acc)) \<longrightarrow> distinct (map fst props)"
        by blast
      from Some True plain f have
        "filter_sections rt (JObj doc) (s # secs) (proto, acc) = Inr (proto, props)"
        by (simp add: js_assign_def)
      moreover from m Some True have "\<forall>k. map_of props k =
          (if k \<in> set (s # secs) \<and> truthy_opt (map_of doc k) then map_option Data (map_of doc k)
           else map_of acc k)"
        by (auto simp: update_conv')
      moreover from d have "distinct (map fst acc) \<longrightarrow> distinct (map fst props)"
        by (simp add: distinct_update)
      ultimately show ?thesis by blast
    next
      case False
      with Some Cons.IH [OF rest, of acc] show ?thesis
        by auto
    qed
  qed
qed

lemma filter_sections_empty_plain:
  assumes "list_all (\<lambda>s. inherited_member rt KObject s = None) secs"
  shows "filter_sections rt (JObj []) secs (proto, acc) = Inr (proto, acc)"
  using assms by (induction secs) (auto simp: inherited_def)

lemma set_sectionsToLoad:
  "ui \<noteq> Some [] \<Longrightarrow> set (sectionsToLoad ui) = {''common'', ''error'', ''footer''} \<union> set_option ui"
  by (cases ui) (auto simp: sectionsToLoad_def defaultSections_def)

text \<open>The loader touches nothing but the object store and the fetch counter.\<close>

lemma loadLanguage_frame:
  assumes "loadLanguage e l = (r, e1)"
  shows "db_open_ok e1 = db_open_ok e \<and> db_get_ok e1 = db_get_ok e \<and> db_clear_ok e1 = db_clear_ok e
    \<and> db_put_ok e1 = db_put_ok e \<and> setItem_ok e1 = setItem_ok e \<and> cdn e1 = cdn e
    \<and> CDN_BASE_URL e1 = CDN_BASE_URL e \<and> user_language e1 = user_language e"
  using assms
  by (auto simp: loadLanguage_def loadLanguage_try_def languageDB_set_def Let_def
      split: if_splits sum.splits option.splits fetch_outcome.splits prod.splits)

lemma loadLanguage_not_null: "fst (loadLanguage e l) \<noteq> Inr JNull"
  by (cases "idb_store e ''current''")
    (auto simp: loadLanguage_def loadLanguage_try_def languageDB_get_def Let_def
      split: if_splits sum.splits option.splits fetch_outcome.splits prod.splits)

lemma loadLanguage_returns:
  assumes "db_open_ok e" "db_get_ok e"
  shows "\<exists>d. fst (loadLanguage e l) = Inr d"
  using assms
  by (auto simp: loadLanguage_def languageDB_get_def Let_def
      split: if_splits sum.splits option.splits prod.splits)

text \<open>The action always resolves, with the flag reset.\<close>

lemma setAndLoadLanguage_resolves:
  "fst (setAndLoadLanguage rt e st l ui) = Inr () \<and>
   \<not> isLoading (state_after (setAndLoadLanguage rt e st l ui))"
  by (auto simp: setAndLoadLanguage_def setAndLoadLanguage_try_def state_after_def Let_def
      split: prod.splits sum.splits)

text \<open>With a working storage layer an activation records the language it was given.\<close>

lemma setAndLoadLanguage_env:
  assumes "db_open_ok e" "db_get_ok e" "setItem_ok e"
    and "setAndLoadLanguage rt e st l ui = (r, st', e')"
  shows "e' = (snd (loadLanguage e l))\<lparr>user_language := Some l, html_lang := l\<rparr>"
proof -
  obtain r0 e1 where l: "loadLanguage e l = (r0, e1)" by (cases "loadLanguage e l")
  from loadLanguage_returns [OF assms(1,2), of l] l obtain d where d: "r0 = Inr d" by auto
  from loadLanguage_not_null [of e l] l d have n: "d \<noteq> JNull" by auto
  from filter_sections_returns [OF n] obtain f
    where f: "filter_sections rt d (sectionsToLoad ui) (None, []) = Inr f" by blast
  from loadLanguage_frame [OF l] assms(3) have s: "setItem_ok e1" by simp
  show ?thesis
    using assms(4) l d f s
    by (cases f) (auto simp: setAndLoadLanguage_def setAndLoadLanguage_try_def Let_def)
qed

lemma loadLanguage_fills_cache:
  assumes "db_open_ok e" "db_get_ok e" "db_clear_ok e" "db_put_ok e"
    and "l \<noteq> ''en''"
    and "cdn e (translations_url e l) = Response True (Some t)" "truthy t"
  shows "truthy_opt (idb_store (snd (loadLanguage e l)) ''current'')"
  using assms
  by (cases "idb_store e ''current''")
    (auto simp: loadLanguage_def loadLanguage_try_def languageDB_get_def languageDB_set_def
      translations_url_def Let_def)

text \<open>A load that fetched has written what it fetched into the cache.\<close>

lemma loadLanguage_fetched:
  assumes "db_open_ok e" "db_get_ok e" "db_clear_ok e" "db_put_ok e"
    and "l \<noteq> ''en''"
    and "cdn e (translations_url e l) = Response True (Some t)" "t \<noteq> JNull"
    and "fetch_count (snd (loadLanguage e l)) \<noteq> fetch_count e"
  shows "idb_store (snd (loadLanguage e l)) ''current'' = Some t"
  using assms
  by (cases "idb_store e ''current''")
    (auto simp: loadLanguage_def loadLanguage_try_def languageDB_get_def languageDB_set_def
      translations_url_def Let_def split: if_splits)

lemma loadLanguage_hit:
  assumes "db_open_ok e" "db_get_ok e" "getCurrentLanguage e = l"
    and "truthy_opt (idb_store e ''current'')"
  shows "snd (loadLanguage e l) = e"
  using assms
  by (cases "idb_store e ''current''") (auto simp: loadLanguage_def languageDB_get_def Let_def)

lemma loadLanguage_miss:
  assumes "db_open_ok e" "db_clear_ok e" "db_put_ok e"
    and "l \<noteq> ''en''" "getCurrentLanguage e \<noteq> l"
    and "cdn e (translations_url e l) = Response True (Some t)" "t \<noteq> JNull"
  shows "loadLanguage e l =
    (Inr t, e\<lparr>fetch_count := Suc (fetch_count e), idb_store := [''current'' \<mapsto> t]\<rparr>)"
  using assms
  by (auto simp: loadLanguage_def loadLanguage_try_def languageDB_get_def languageDB_set_def
      translations_url_def getCurrentLanguage_def Let_def)

text \<open>Without a true value in the store there is no store hit, whatever else happens.\<close>

lemma caption_no_store_hit:
  assumes "getNestedValue rt (messages_object st) key = Inr r" "\<not> truthy_val_opt r"
  shows "storeHits (snd (caption rt st en stats key fb ps)) = storeHits stats"
  using assms
  by (auto simp: caption_def resolve_translation_def
      split: option.splits sum.splits prod.splits jsval.splits json.splits)

text \<open>
  After a load that raised the messages are empty; after one that gave the empty document
  they are empty for section names that are not names of members that objects inherit.
\<close>

lemma setAndLoadLanguage_failed_load:
  assumes "(\<exists>err. fst (loadLanguage e l) = Inl err) \<or>
    (fst (loadLanguage e l) = Inr (JObj []) \<and>
     list_all (\<lambda>s. inherited_member rt KObject s = None) (sectionsToLoad ui))"
  shows "messages (state_after (setAndLoadLanguage rt e st l ui)) = [] \<and>
    messages_proto (state_after (setAndLoadLanguage rt e st l ui)) = None"
proof -
  have raised: ?thesis if "fst (loadLanguage e l) = Inl err" for err
    using that
    by (auto simp: setAndLoadLanguage_def setAndLoadLanguage_try_def state_after_def
        split: prod.splits sum.splits)
  have empty: ?thesis
    if "fst (loadLanguage e l) = Inr (JObj [])"
      and "list_all (\<lambda>s. inherited_member rt KObject s = None) (sectionsToLoad ui)"
    using that filter_sections_empty_plain [OF that(2), of None "[]"]
    by (auto simp: setAndLoadLanguage_def setAndLoadLanguage_try_def state_after_def Let_def
        split: prod.splits sum.splits)
  from assms raised empty show ?thesis by blast
qed

subsection \<open>The caption resolver\<close>

text \<open>
  C1 (as amended): \<open>caption\<close> consults its sources in a fixed order. A non-empty string
  found in the loaded messages is returned and counted as a store hit. When the key is
  absent from the loaded messages, a non-empty string found in the English document is
  returned and counted as a fallback hit. When the key is absent from both, the explicit
  fallback is returned if it was given and is not the empty string, and the key itself
  otherwise; this is counted as a missing key.
\<close>

theorem caption_fallback_chain:
  "(getNestedValue rt (messages_object st) key = Inr (Some (Data (JStr s))) \<and> s \<noteq> [] \<longrightarrow>
      caption rt st en stats key fb None =
        (Data (JStr s), stats\<lparr>storeHits := Suc (storeHits stats)\<rparr>)) \<and>
   (getNestedValue rt (messages_object st) key = Inr None \<and>
    getNestedValue rt (Value (Data en)) key = Inr (Some (Data (JStr s))) \<and> s \<noteq> [] \<longrightarrow>
      caption rt st en stats key fb None =
        (Data (JStr s), stats\<lparr>fallbackHits := Suc (fallbackHits stats)\<rparr>)) \<and>
   (getNestedValue rt (messages_object st) key = Inr None \<and>
    getNestedValue rt (Value (Data en)) key = Inr None \<longrightarrow>
      caption rt st en stats key fb None =
        (Data (JStr (case fb of None \<Rightarrow> key | Some f \<Rightarrow> if f = [] then key else f)),
         stats\<lparr>missingKeys := Suc (missingKeys stats)\<rparr>))"
  by (simp add: caption_def resolve_translation_def fallback_or_key_def split: option.splits)

theorem caption_fallback_chain_witness:
  "caption example_realm example_store example_english no_stats ''common.save'' None None =
     (Data (JStr ''Guardar''), \<lparr>storeHits = 1, fallbackHits = 0, missingKeys = 0\<rparr>) \<and>
   caption example_realm example_store example_english no_stats ''common.cancel'' None None =
     (Data (JStr ''Cancel''), \<lparr>storeHits = 0, fallbackHits = 1, missingKeys = 0\<rparr>) \<and>
   caption example_realm example_store example_english no_stats ''unknown.key'' None None =
     (Data (JStr ''unknown.key''), \<lparr>storeHits = 0, fallbackHits = 0, missingKeys = 1\<rparr>) \<and>
   caption example_realm example_store example_english no_stats ''unknown.key'' (Some ''N/A'') None =
     (Data (JStr ''N/A''), \<lparr>storeHits = 0, fallbackHits = 0, missingKeys = 1\<rparr>)"
proof -
  have store: "getNestedValue example_realm (messages_object example_store) ''common.save'' =
      Inr (Some (Data (JStr ''Guardar'')))"
    by (simp add: getNestedValue_def messages_object_def example_store_def initial_state_def)
  have no_cancel: "getNestedValue example_realm (messages_object example_store) ''common.cancel'' = Inr None"
    by (simp add: getNestedValue_def messages_object_def example_store_def initial_state_def
        inherited_def example_realm_def object_prototype_members_def)
  have english: "getNestedValue example_realm (Value (Data example_english)) ''common.cancel'' =
      Inr (Some (Data (JStr ''Cancel'')))"
    by (simp add: getNestedValue_def example_english_def)
  have unknown: "getNestedValue example_realm (messages_object example_store) ''unknown.key'' = Inr None"
    "getNestedValue example_realm (Value (Data example_english)) ''unknown.key'' = Inr None"
    by (simp_all add: getNestedValue_def messages_object_def example_store_def initial_state_def
        example_english_def inherited_def example_realm_def object_prototype_members_def)
  show ?thesis
    using caption_fallback_chain [of example_realm example_store "''common.save''" "''Guardar''"
        example_english no_stats None]
      caption_fallback_chain [of example_realm example_store "''common.cancel''" "''Cancel''"
        example_english no_stats None]
      caption_fallback_chain [of example_realm example_store "''unknown.key''" "[]"
        example_english no_stats None]
      caption_fallback_chain [of example_realm example_store "''unknown.key''" "[]"
        example_english no_stats "Some ''N/A''"]
      store no_cancel english unknown
    by (simp add: no_stats_def)
qed

text \<open>
  That a key absent everywhere resolves to the explicit fallback whenever one is given does
  not hold for the empty string: the key is absent from both documents and a fallback is
  given, yet the key comes back.
\<close>

theorem caption_empty_fallback_counterexample:
  "getNestedValue example_realm (messages_object example_store) ''unknown.key'' = Inr None \<and>
   getNestedValue example_realm (Value (Data example_english)) ''unknown.key'' = Inr None \<and>
   fst (caption example_realm example_store example_english no_stats ''unknown.key'' (Some []) None) =
     Data (JStr ''unknown.key'') \<and>
   fst (caption example_realm example_store example_english no_stats ''unknown.key'' (Some []) None) \<noteq>
     Data (JStr [])"
  by (simp add: caption_def resolve_translation_def fallback_or_key_def getNestedValue_def
      messages_object_def example_store_def initial_state_def example_english_def
      inherited_def example_realm_def object_prototype_members_def)

text \<open>
  C2: \<open>caption\<close> is to replace every occurrence of \<open>{paramName}\<close> by the parameter's
  value. It replaces the first occurrence only: in a template that names \<open>{name}\<close> twice,
  the second placeholder is still there in the result.
\<close>

theorem caption_replaces_first_placeholder_only:
  "caption rt
      (example_store\<lparr>messages :=
         [(''dashboard'', Data (JObj [(''welcome'', JStr ''{name}, welcome back {name}!'')]))]\<rparr>)
      en stats ''dashboard.welcome'' fb (Some [(''name'', ''Ava'')]) =
     (Data (JStr ''Ava, welcome back {name}!''), stats\<lparr>storeHits := Suc (storeHits stats)\<rparr>)"
  by (simp add: caption_def resolve_translation_def getNestedValue_def messages_object_def
      interpolate_def js_replace_def)

text \<open>
  C10: \<open>hasTranslation\<close> is to hold exactly when \<open>caption\<close> takes the store-hit
  branch. For a key whose stored value is the empty string \<open>hasTranslation\<close> holds, but
  \<open>caption\<close> counts no store hit and answers from the English document.
\<close>

theorem hasTranslation_without_store_hit:
  "hasTranslation rt
      (example_store\<lparr>messages := [(''common'', Data (JObj [(''save'', JStr [])]))]\<rparr>)
      ''common.save'' = Inr True \<and>
   storeHits (snd (caption rt
      (example_store\<lparr>messages := [(''common'', Data (JObj [(''save'', JStr [])]))]\<rparr>)
      en stats ''common.save'' fb None)) = storeHits stats \<and>
   caption rt (example_store\<lparr>messages := [(''common'', Data (JObj [(''save'', JStr [])]))]\<rparr>)
      example_english stats ''common.save'' fb None =
     (Data (JStr ''Save''), stats\<lparr>fallbackHits := Suc (fallbackHits stats)\<rparr>)"
proof -
  let ?st = "example_store\<lparr>messages := [(''common'', Data (JObj [(''save'', JStr [])]))]\<rparr>"
  have found: "getNestedValue rt (messages_object ?st) ''common.save'' = Inr (Some (Data (JStr [])))"
    by (simp add: getNestedValue_def messages_object_def)
  have "hasTranslation rt ?st ''common.save'' = Inr True"
    using found by (simp add: hasTranslation_def)
  moreover have "storeHits (snd (caption rt ?st en stats ''common.save'' fb None)) = storeHits stats"
    by (rule caption_no_store_hit [OF found]) simp
  moreover have "caption rt ?st example_english stats ''common.save'' fb None =
      (Data (JStr ''Save''), stats\<lparr>fallbackHits := Suc (fallbackHits stats)\<rparr>)"
    by (simp add: caption_def resolve_translation_def getNestedValue_def messages_object_def
        example_english_def)
  ultimately show ?thesis by simp
qed

subsection \<open>The local cache\<close>

text \<open>
  C6: \<open>languageDB.get\<close> hands out the stored document only when the recorded current
  language equals the requested one. Whenever it returns a document, the two are equal and
  the document is the one in the store; whenever the database opens and they differ, the
  answer is \<open>undefined\<close>, whatever the store holds; and when they agree and the read
  succeeds, the answer is what the store holds.
\<close>

theorem languageDB_get_checks_marker:
  "(languageDB_get e l = Inr (Some d) \<longrightarrow>
      getCurrentLanguage e = l \<and> idb_store e ''current'' = Some d) \<and>
   (db_open_ok e \<and> getCurrentLanguage e \<noteq> l \<longrightarrow> languageDB_get e l = Inr None) \<and>
   (db_open_ok e \<and> db_get_ok e \<and> getCurrentLanguage e = l \<longrightarrow>
      languageDB_get e l = Inr (idb_store e ''current''))"
  by (simp add: languageDB_get_def Let_def)

theorem languageDB_get_checks_marker_witness:
  "idb_store example_env_es ''current'' = Some example_document_es \<and>
   getCurrentLanguage example_env_es = ''es'' \<and>
   languageDB_get example_env_es ''fr'' = Inr None \<and>
   languageDB_get example_env_es ''es'' = Inr (Some example_document_es)"
proof -
  have cur: "getCurrentLanguage example_env_es = ''es''"
    by (simp add: getCurrentLanguage_def example_env_es_def)
  have ok: "db_open_ok example_env_es" "db_get_ok example_env_es"
    by (simp_all add: example_env_es_def example_env_def)
  have held: "idb_store example_env_es ''current'' = Some example_document_es"
    by (simp add: example_env_es_def)
  show ?thesis
    using languageDB_get_checks_marker [of example_env_es "''fr''"]
      languageDB_get_checks_marker [of example_env_es "''es''"] cur ok held
    by simp
qed

subsection \<open>The content loader\<close>

text \<open>
  C3: \<open>loadLanguage\<close> is never to raise, whatever fails. It reads the cache before its
  \<open>try\<close> block: when the database cannot be opened, or when Spanish is the recorded
  language and the read of the store fails, the call for Spanish ends in the storage
  error, and no fetch is made.
\<close>

theorem loadLanguage_raises_on_cache_read_failure:
  "loadLanguage (e\<lparr>db_open_ok := False\<rparr>) ''es'' = (Inl StorageError, e\<lparr>db_open_ok := False\<rparr>) \<and>
   loadLanguage (e\<lparr>user_language := Some ''es'', db_open_ok := True, db_get_ok := False\<rparr>) ''es'' =
     (Inl StorageError, e\<lparr>user_language := Some ''es'', db_open_ok := True, db_get_ok := False\<rparr>)"
  by (simp add: loadLanguage_def languageDB_get_def getCurrentLanguage_def)

subsection \<open>The language store\<close>

text \<open>
  C9: after a load that failed, \<open>setAndLoadLanguage\<close> is to resolve with the flag
  reset and the messages empty. It resolves with the flag reset, but the filter reads
  \<open>allMessages[section]\<close>, which finds inherited members too: with the fetch rejected,
  hence the empty document, and the requested section \<open>toString\<close>, the messages hold
  the function that every object inherits under that name.
\<close>

theorem setAndLoadLanguage_keeps_inherited_member:
  "fst (loadLanguage (example_env\<lparr>cdn := \<lambda>url. Rejected\<rparr>) ''es'') = Inr (JObj []) \<and>
   fst (setAndLoadLanguage example_realm (example_env\<lparr>cdn := \<lambda>url. Rejected\<rparr>)
      example_store ''es'' (Some ''toString'')) = Inr () \<and>
   \<not> isLoading (state_after (setAndLoadLanguage example_realm (example_env\<lparr>cdn := \<lambda>url. Rejected\<rparr>)
      example_store ''es'' (Some ''toString''))) \<and>
   messages (state_after (setAndLoadLanguage example_realm (example_env\<lparr>cdn := \<lambda>url. Rejected\<rparr>)
      example_store ''es'' (Some ''toString''))) =
     [(''toString'', Builtin ''Object.prototype.toString'')]"
  by (simp add: state_after_def setAndLoadLanguage_def setAndLoadLanguage_try_def
      loadLanguage_def loadLanguage_try_def languageDB_get_def getCurrentLanguage_def
      sectionsToLoad_def defaultSections_def js_assign_def inherited_def
      example_env_def example_realm_def object_prototype_members_def)

text \<open>
  C7 (as amended): when the load gave a document whose sections are all values JavaScript
  treats as true (every object is), the storage write succeeds, the requested section, if
  given, is not the empty string, and none of the names asked for is the name of a member
  that objects inherit, \<open>setAndLoadLanguage\<close> leaves as messages exactly the document's
  sections named \<open>common\<close>, \<open>error\<close>, \<open>footer\<close> or as requested: those among them
  that the document lacks are left out, and so is every other section.
\<close>

theorem setAndLoadLanguage_filters_sections:
  assumes "loadLanguage e l = (Inr (JObj doc), e1)"
    and "setItem_ok e1"
    and "\<forall>(k, v) \<in> set doc. truthy v"
    and "ui \<noteq> Some []"
    and "list_all (\<lambda>s. inherited_member rt KObject s = None) (sectionsToLoad ui)"
    and "setAndLoadLanguage rt e st l ui = (r, st', e')"
  shows "map_of (messages st') k =
           (if k \<in> {''common'', ''error'', ''footer''} \<union> set_option ui
            then map_option Data (map_of doc k) else None)
         \<and> distinct (map fst (messages st')) \<and> messages_proto st' = None"
proof -
  from filter_sections_plain [OF assms(5), of doc None "[]"] obtain props where
    f: "filter_sections rt (JObj doc) (sectionsToLoad ui) (None, []) = Inr (None, props)"
    and m: "\<forall>k. map_of props k =
       (if k \<in> set (sectionsToLoad ui) \<and> truthy_opt (map_of doc k)
        then map_option Data (map_of doc k) else map_of [] k)"
    and d: "distinct (map fst props)"
    by auto
  have st': "messages st' = props" "messages_proto st' = None"
    using assms(1,2,6) f
    by (auto simp: setAndLoadLanguage_def setAndLoadLanguage_try_def Let_def)
  have t: "truthy_opt (map_of doc k) \<or> map_of doc k = None"
  proof (cases "map_of doc k")
    case None
    then show ?thesis by simp
  next
    case (Some v)
    then have "(k, v) \<in> set doc" by (rule map_of_SomeD)
    with assms(3) Some show ?thesis by auto
  qed
  from t m d show ?thesis
    unfolding st' by (auto simp: set_sectionsToLoad [OF assms(4)])
qed

theorem setAndLoadLanguage_filters_sections_witness:
  "map fst (messages (state_after
       (setAndLoadLanguage example_realm example_env initial_state ''es'' (Some ''dashboard'')))) =
     [''common'', ''error'', ''footer'', ''dashboard''] \<and>
   map_of (messages (state_after
       (setAndLoadLanguage example_realm example_env initial_state ''es'' (Some ''dashboard''))))
       ''dashboard'' = Some (Data (JObj [(''welcome'', JStr ''Bienvenido de nuevo, {name}!'')])) \<and>
   map_of (messages (state_after
       (setAndLoadLanguage example_realm example_env initial_state ''es'' (Some ''dashboard''))))
       ''settings'' = None"
proof -
  let ?doc = "[(''common'', JObj [(''save'', JStr ''Guardar'')]),
           (''error'', JObj [(''generic'', JStr ''Algo ha fallado'')]),
           (''footer'', JObj [(''copyright'', JStr ''Derechos reservados'')]),
           (''dashboard'', JObj [(''welcome'', JStr ''Bienvenido de nuevo, {name}!'')]),
           (''settings'', JObj [(''title'', JStr ''Ajustes'')])]"
  let ?e1 = "example_env\<lparr>fetch_count := Suc (fetch_count example_env),
      idb_store := [''current'' \<mapsto> JObj ?doc]\<rparr>"
  let ?run = "setAndLoadLanguage example_realm example_env initial_state ''es'' (Some ''dashboard'')"
  have load: "loadLanguage example_env ''es'' = (Inr (JObj ?doc), ?e1)"
    by (rule loadLanguage_miss)
      (simp_all add: example_env_def example_cdn_def example_document_es_def
        getCurrentLanguage_def translations_url_def)
  have ok: "setItem_ok ?e1" by (simp add: example_env_def)
  have secs: "\<forall>(k, v) \<in> set ?doc. truthy v" by simp
  have ui: "Some ''dashboard'' \<noteq> Some []" by simp
  have plain: "list_all (\<lambda>s. inherited_member example_realm KObject s = None)
      (sectionsToLoad (Some ''dashboard''))"
    by (simp add: sectionsToLoad_def defaultSections_def example_realm_def
        object_prototype_members_def)
  have act: "?run = (fst ?run, state_after ?run, env_after ?run)"
    by (simp add: state_after_def env_after_def)
  have keys: "map fst (messages (state_after ?run)) = [''common'', ''error'', ''footer'', ''dashboard'']"
    using load
    by (simp add: state_after_def setAndLoadLanguage_def setAndLoadLanguage_try_def
        sectionsToLoad_def defaultSections_def js_assign_def example_env_def)
  show ?thesis
    using setAndLoadLanguage_filters_sections [OF load ok secs ui plain act, of "''dashboard''"]
      setAndLoadLanguage_filters_sections [OF load ok secs ui plain act, of "''settings''"] keys
    by simp
qed

text \<open>
  That the requested section is always added fails for the empty section name: the cached
  document has a section of that name, the section is requested, and the messages do not
  hold it.
\<close>

theorem setAndLoadLanguage_empty_section_counterexample:
  "fst (loadLanguage example_env_unnamed ''es'') = Inr example_document_unnamed \<and>
   own_property example_document_unnamed [] = Some (JObj [(''title'', JStr ''Portada'')]) \<and>
   map_of (messages (state_after
       (setAndLoadLanguage example_realm example_env_unnamed initial_state ''es'' (Some []))))
       [] = None \<and>
   map fst (messages (state_after
       (setAndLoadLanguage example_realm example_env_unnamed initial_state ''es'' (Some [])))) =
     [''common'']"
  by (simp add: state_after_def setAndLoadLanguage_def setAndLoadLanguage_try_def
      loadLanguage_def languageDB_get_def getCurrentLanguage_def
      sectionsToLoad_def defaultSections_def js_assign_def inherited_def
      example_env_unnamed_def example_env_def example_document_unnamed_def
      example_realm_def object_prototype_members_def)

text \<open>
  C8: for an active language other than English and a section that the loaded document
  holds, \<open>loadAdditionalSection\<close> sets that one section in the messages and leaves every
  other section as it was. \<open>setAndLoadLanguage\<close>, by contrast, builds the messages from
  the loaded document alone: what was loaded before has no influence on them.
\<close>

theorem loadAdditionalSection_merges:
  assumes "currentLocale st \<noteq> ''en''"
    and "loadLanguage e (currentLocale st) = (Inr doc, e1)"
    and "js_get rt (Data doc) sectionName = Inr (Some v)"
    and "truthy_val v"
    and "loadAdditionalSection rt e st sectionName = (r, st', e')"
  shows "r = Inr () \<and>
         map_of (messages st') sectionName = Some v \<and>
         (\<forall>k. k \<noteq> sectionName \<longrightarrow> map_of (messages st') k = map_of (messages st) k) \<and>
         messages (state_after (setAndLoadLanguage rt e (st\<lparr>messages := m, messages_proto := p\<rparr>) l ui)) =
           messages (state_after (setAndLoadLanguage rt e st l ui)) \<and>
         messages_proto (state_after (setAndLoadLanguage rt e (st\<lparr>messages := m, messages_proto := p\<rparr>) l ui)) =
           messages_proto (state_after (setAndLoadLanguage rt e st l ui))"
proof -
  from assms have "r = Inr ()"
    and "messages st' = AList.update sectionName v (messages st)"
    by (auto simp: loadAdditionalSection_def loadAdditionalSection_try_def)
  moreover have "messages (state_after (setAndLoadLanguage rt e (st\<lparr>messages := m, messages_proto := p\<rparr>) l ui)) =
      messages (state_after (setAndLoadLanguage rt e st l ui))"
    by (auto simp: setAndLoadLanguage_def setAndLoadLanguage_try_def state_after_def
        split: prod.splits sum.splits option.splits if_splits)
  moreover have "messages_proto (state_after (setAndLoadLanguage rt e (st\<lparr>messages := m, messages_proto := p\<rparr>) l ui)) =
      messages_proto (state_after (setAndLoadLanguage rt e st l ui))"
    by (auto simp: setAndLoadLanguage_def setAndLoadLanguage_try_def state_after_def
        split: prod.splits sum.splits option.splits if_splits)
  ultimately show ?thesis by (simp add: update_conv')
qed

theorem loadAdditionalSection_merges_witness:
  "map_of (messages (state_after
       (loadAdditionalSection example_realm example_env_es example_store ''settings'')))
       ''settings'' = Some (Data (JObj [(''title'', JStr ''Ajustes'')])) \<and>
   map_of (messages (state_after
       (loadAdditionalSection example_realm example_env_es example_store ''settings'')))
       ''common'' = Some (Data (JObj [(''save'', JStr ''Guardar'')])) \<and>
   messages (state_after (setAndLoadLanguage example_realm example_env_es example_store ''fr'' None)) =
     [(''common'', Data (JObj [(''save'', JStr ''Enregistrer'')]))]"
proof -
  let ?run = "loadAdditionalSection example_realm example_env_es example_store ''settings''"
  have active: "currentLocale example_store \<noteq> ''en''" by (simp add: example_store_def)
  have load: "loadLanguage example_env_es (currentLocale example_store) =
      (Inr example_document_es, example_env_es)"
    by (simp add: loadLanguage_def languageDB_get_def getCurrentLanguage_def example_env_es_def
        example_env_def example_store_def example_document_es_def)
  have held: "js_get example_realm (Data example_document_es) ''settings'' =
      Inr (Some (Data (JObj [(''title'', JStr ''Ajustes'')])))"
    by (simp add: example_document_es_def)
  have t: "truthy_val (Data (JObj [(''title'', JStr ''Ajustes'')]))" by simp
  have act: "?run = (fst ?run, state_after ?run, env_after ?run)"
    by (simp add: state_after_def env_after_def)
  have before: "map_of (messages example_store) ''common'' =
      Some (Data (JObj [(''save'', JStr ''Guardar'')]))"
    by (simp add: example_store_def)
  have fr: "messages (state_after (setAndLoadLanguage example_realm example_env_es
      (example_store\<lparr>messages := [], messages_proto := None\<rparr>) ''fr'' None)) =
      [(''common'', Data (JObj [(''save'', JStr ''Enregistrer'')]))]"
    by (simp add: state_after_def setAndLoadLanguage_def setAndLoadLanguage_try_def
        loadLanguage_def loadLanguage_try_def languageDB_get_def languageDB_set_def
        getCurrentLanguage_def translations_url_def example_env_es_def example_env_def
        example_cdn_def example_document_fr_def sectionsToLoad_def defaultSections_def
        js_assign_def inherited_def example_realm_def object_prototype_members_def)
  show ?thesis
    using loadAdditionalSection_merges [OF active load held t act,
        where m = "[]" and p = None and l = "''fr''" and ui = None]
      before fr
    by simp
qed

subsection \<open>Activations and the cache\<close>

text \<open>
  C4 (as amended): for a language other than English and other than the empty string, with
  a storage layer that works and a CDN that serves the language's document, a second
  activation of the language fetches nothing, whatever the network would answer by then:
  after the first activation the recorded current language is that language, and the
  loader returns what the cache holds. Where the first activation fetched, the cache holds
  the fetched document, and that document is what the loader returns to the second.
\<close>

theorem second_activation_served_from_cache:
  assumes loc: "l \<noteq> ''en''" "l \<noteq> []"
    and storage: "db_open_ok e" "db_get_ok e" "db_clear_ok e" "db_put_ok e" "setItem_ok e"
    and fetched: "cdn e (translations_url e l) = Response True (Some (JObj doc))"
    and first: "setAndLoadLanguage rt e st l ui = (r1, st1, e1)"
    and second: "setAndLoadLanguage rt (e1\<lparr>cdn := net\<rparr>) st1 l ui' = (r2, st2, e2)"
  shows "fetch_count e2 = fetch_count e1 \<and> getCurrentLanguage e1 = l \<and>
    (\<exists>cached. idb_store e1 ''current'' = Some cached \<and>
       fst (loadLanguage (e1\<lparr>cdn := net\<rparr>) l) = Inr cached) \<and>
    (fetch_count e1 \<noteq> fetch_count e \<longrightarrow>
       idb_store e1 ''current'' = Some (JObj doc) \<and>
       fst (loadLanguage (e1\<lparr>cdn := net\<rparr>) l) = Inr (JObj doc))"
proof -
  obtain r0 eL where l: "loadLanguage e l = (r0, eL)" by (cases "loadLanguage e l")
  have e1: "e1 = eL\<lparr>user_language := Some l, html_lang := l\<rparr>"
    using setAndLoadLanguage_env [OF storage(1,2,5) first] l by simp
  have fr: "db_open_ok eL" "db_get_ok eL" "setItem_ok eL"
    using loadLanguage_frame [OF l] storage by simp_all
  have full: "truthy_opt (idb_store eL ''current'')"
    using loadLanguage_fills_cache [OF storage(1-4) loc(1) fetched] l by simp
  let ?e = "e1\<lparr>cdn := net\<rparr>"
  have cur: "getCurrentLanguage ?e = l" "getCurrentLanguage e1 = l"
    using loc(2) by (simp_all add: e1 getCurrentLanguage_def)
  have ok: "db_open_ok ?e" "db_get_ok ?e" "setItem_ok ?e" "truthy_opt (idb_store ?e ''current'')"
    using fr full by (simp_all add: e1)
  have hit: "snd (loadLanguage ?e l) = ?e"
    by (rule loadLanguage_hit [OF ok(1,2) cur(1) ok(4)])
  have "e2 = ?e\<lparr>user_language := Some l, html_lang := l\<rparr>"
    using setAndLoadLanguage_env [OF ok(1-3) second] hit by simp
  then have same: "fetch_count e2 = fetch_count e1" by simp
  have served: "\<exists>cached. idb_store e1 ''current'' = Some cached \<and>
       fst (loadLanguage ?e l) = Inr cached"
    using ok cur loc(1)
    by (cases "idb_store e1 ''current''") (auto simp: loadLanguage_def languageDB_get_def Let_def)
  have written: "idb_store e1 ''current'' = Some (JObj doc)" if "fetch_count e1 \<noteq> fetch_count e"
  proof -
    from that have "fetch_count (snd (loadLanguage e l)) \<noteq> fetch_count e"
      by (simp add: e1 l)
    from loadLanguage_fetched [OF storage(1-4) loc(1) fetched _ this]
    show ?thesis by (simp add: e1 l)
  qed
  from same cur served written show ?thesis by auto
qed

theorem second_activation_served_from_cache_witness:
  "fetch_count (env_after (setAndLoadLanguage example_realm example_env initial_state ''es'' None)) = 1 \<and>
   idb_store (env_after (setAndLoadLanguage example_realm example_env initial_state ''es'' None))
     ''current'' = Some example_document_es \<and>
   fst (loadLanguage
      ((env_after (setAndLoadLanguage example_realm example_env initial_state ''es'' None))
         \<lparr>cdn := \<lambda>url. Rejected\<rparr>) ''es'') = Inr example_document_es \<and>
   fetch_count (env_after (setAndLoadLanguage example_realm
      ((env_after (setAndLoadLanguage example_realm example_env initial_state ''es'' None))
         \<lparr>cdn := \<lambda>url. Rejected\<rparr>)
      (state_after (setAndLoadLanguage example_realm example_env initial_state ''es'' None))
      ''es'' (Some ''dashboard''))) = 1"
proof -
  let ?first = "setAndLoadLanguage example_realm example_env initial_state ''es'' None"
  let ?second = "setAndLoadLanguage example_realm ((env_after ?first)\<lparr>cdn := \<lambda>url. Rejected\<rparr>)
      (state_after ?first) ''es'' (Some ''dashboard'')"
  have loc: "''es'' \<noteq> ''en''" "''es'' \<noteq> []" by simp_all
  have storage: "db_open_ok example_env" "db_get_ok example_env" "db_clear_ok example_env"
    "db_put_ok example_env" "setItem_ok example_env"
    by (simp_all add: example_env_def)
  have fetched: "cdn example_env (translations_url example_env ''es'') =
      Response True (Some (JObj [(''common'', JObj [(''save'', JStr ''Guardar'')]),
           (''error'', JObj [(''generic'', JStr ''Algo ha fallado'')]),
           (''footer'', JObj [(''copyright'', JStr ''Derechos reservados'')]),
           (''dashboard'', JObj [(''welcome'', JStr ''Bienvenido de nuevo, {name}!'')]),
           (''settings'', JObj [(''title'', JStr ''Ajustes'')])]))"
    by (simp add: example_env_def example_cdn_def example_document_es_def translations_url_def)
  have first: "?first = (fst ?first, state_after ?first, env_after ?first)"
    by (simp add: state_after_def env_after_def)
  have second: "?second = (fst ?second, state_after ?second, env_after ?second)"
    by (simp add: state_after_def env_after_def)
  have one: "fetch_count (env_after ?first) = 1"
    by (simp add: env_after_def setAndLoadLanguage_def setAndLoadLanguage_try_def
        loadLanguage_def loadLanguage_try_def languageDB_get_def languageDB_set_def
        getCurrentLanguage_def translations_url_def example_env_def example_cdn_def
        example_document_es_def sectionsToLoad_def defaultSections_def js_assign_def
        inherited_def example_realm_def object_prototype_members_def)
  have zero: "fetch_count example_env = 0" by (simp add: example_env_def)
  show ?thesis
    using second_activation_served_from_cache [OF loc storage fetched first second] one zero
    by (simp add: example_document_es_def)
qed

text \<open>
  For the empty language name the second activation fetches again: the name is recorded,
  but an empty record reads back as English, so the cache does not answer.
\<close>

theorem second_activation_empty_locale_counterexample:
  "[] \<noteq> ''en'' \<and>
   cdn example_env (translations_url example_env []) = Response True (Some example_document_fr) \<and>
   fetch_count (env_after (setAndLoadLanguage example_realm example_env initial_state [] None)) = 1 \<and>
   fetch_count (env_after (setAndLoadLanguage example_realm
      (env_after (setAndLoadLanguage example_realm example_env initial_state [] None))
      (state_after (setAndLoadLanguage example_realm example_env initial_state [] None))
      [] None)) = 2"
  by (simp add: env_after_def state_after_def setAndLoadLanguage_def setAndLoadLanguage_try_def
      loadLanguage_def loadLanguage_try_def languageDB_get_def languageDB_set_def
      getCurrentLanguage_def translations_url_def example_env_def example_cdn_def
      example_document_fr_def sectionsToLoad_def defaultSections_def js_assign_def
      inherited_def example_realm_def object_prototype_members_def)

text \<open>
  C5: for two different languages, neither of them English, with a storage layer that works
  and a CDN that serves the second language's document: after the first language has been
  activated and then the second, the object store holds the second document under
  \<open>current\<close> and nothing else, whatever it held at the start, and the cache no longer
  answers for the first language.
\<close>

theorem single_slot_cache:
  assumes locales: "l1 \<noteq> l2" "l1 \<noteq> ''en''" "l2 \<noteq> ''en''"
    and storage: "db_open_ok e" "db_get_ok e" "db_clear_ok e" "db_put_ok e" "setItem_ok e"
    and fetched: "cdn e (translations_url e l2) = Response True (Some (JObj d2))"
    and first: "setAndLoadLanguage rt e st l1 ui1 = (r1, st1, e1)"
    and second: "setAndLoadLanguage rt e1 st1 l2 ui2 = (r2, st2, e2)"
  shows "idb_store e2 = [''current'' \<mapsto> JObj d2] \<and> languageDB_get e2 l1 = Inr None"
proof -
  obtain r0 eL where l: "loadLanguage e l1 = (r0, eL)" by (cases "loadLanguage e l1")
  have e1: "e1 = eL\<lparr>user_language := Some l1, html_lang := l1\<rparr>"
    using setAndLoadLanguage_env [OF storage(1,2,5) first] l by simp
  have fr: "db_open_ok e1" "db_get_ok e1" "db_clear_ok e1" "db_put_ok e1" "setItem_ok e1"
    "cdn e1 = cdn e" "CDN_BASE_URL e1 = CDN_BASE_URL e"
    using loadLanguage_frame [OF l] storage by (simp_all add: e1)
  have cur: "getCurrentLanguage e1 \<noteq> l2"
    using locales by (auto simp: e1 getCurrentLanguage_def)
  have f: "cdn e1 (translations_url e1 l2) = Response True (Some (JObj d2))"
    using fetched fr by (simp add: translations_url_def)
  have "loadLanguage e1 l2 =
    (Inr (JObj d2), e1\<lparr>fetch_count := Suc (fetch_count e1), idb_store := [''current'' \<mapsto> JObj d2]\<rparr>)"
    by (rule loadLanguage_miss [OF fr(1,3,4) locales(3) cur f]) simp
  then have e2: "e2 = e1\<lparr>fetch_count := Suc (fetch_count e1), idb_store := [''current'' \<mapsto> JObj d2],
      user_language := Some l2, html_lang := l2\<rparr>"
    using setAndLoadLanguage_env [OF fr(1,2,5) second] by simp
  have "getCurrentLanguage e2 \<noteq> l1"
    using locales by (auto simp: e2 getCurrentLanguage_def)
  then show ?thesis using fr by (simp add: e2 languageDB_get_def)
qed

theorem single_slot_cache_witness:
  "idb_store (env_after (setAndLoadLanguage example_realm example_env initial_state ''es'' None))
     ''current'' = Some example_document_es \<and>
   idb_store (env_after (setAndLoadLanguage example_realm
      (env_after (setAndLoadLanguage example_realm example_env initial_state ''es'' None))
      (state_after (setAndLoadLanguage example_realm example_env initial_state ''es'' None))
      ''fr'' None)) =
     [''current'' \<mapsto> example_document_fr] \<and>
   languageDB_get (env_after (setAndLoadLanguage example_realm
      (env_after (setAndLoadLanguage example_realm example_env initial_state ''es'' None))
      (state_after (setAndLoadLanguage example_realm example_env initial_state ''es'' None))
      ''fr'' None)) ''es'' =
     Inr None"
proof -
  let ?first = "setAndLoadLanguage example_realm example_env initial_state ''es'' None"
  let ?second = "setAndLoadLanguage example_realm (env_after ?first) (state_after ?first) ''fr'' None"
  have locales: "''es'' \<noteq> ''fr''" "''es'' \<noteq> ''en''" "''fr'' \<noteq> ''en''" by simp_all
  have storage: "db_open_ok example_env" "db_get_ok example_env" "db_clear_ok example_env"
    "db_put_ok example_env" "setItem_ok example_env"
    by (simp_all add: example_env_def)
  have fetched: "cdn example_env (translations_url example_env ''fr'') =
      Response True (Some (JObj [(''common'', JObj [(''save'', JStr ''Enregistrer'')])]))"
    by (simp add: example_env_def example_cdn_def example_document_fr_def translations_url_def)
  have first: "?first = (fst ?first, state_after ?first, env_after ?first)"
    by (simp add: state_after_def env_after_def)
  have second: "?second = (fst ?second, state_after ?second, env_after ?second)"
    by (simp add: state_after_def env_after_def)
  have es: "idb_store (env_after ?first) ''current'' = Some example_document_es"
    by (simp add: env_after_def setAndLoadLanguage_def setAndLoadLanguage_try_def
        loadLanguage_def loadLanguage_try_def languageDB_get_def languageDB_set_def
        getCurrentLanguage_def translations_url_def example_env_def example_cdn_def
        example_document_es_def sectionsToLoad_def defaultSections_def js_assign_def
        inherited_def example_realm_def object_prototype_members_def)
  show ?thesis
    using single_slot_cache [OF locales storage fetched first second] es
    by (simp add: example_document_fr_def)
qed


end
